theory Spec2Isabelle
  imports Complex_Main "HOL-Library.Sublist"
begin

section \<open>Python strings\<close>

text \<open>
  A Python \<open>str\<close> is a sequence of Unicode code points and \<open>len\<close> counts code points,
  so a string is modelled as the list of its code points. The literals of \<open>main.py\<close>
  that are not ASCII are written as the code points of their characters.
\<close>

type_synonym pystr = "nat list"

definition ascii :: "string \<Rightarrow> pystr" where
  "ascii cs = map of_char cs"

text \<open>\<open>s[:i]\<close> and \<open>s[i:]\<close>: a negative index counts from the end, and both ends clamp.\<close>

definition slice_to :: "'a list \<Rightarrow> int \<Rightarrow> 'a list" where
  "slice_to s i = (if i < 0 then take (nat (int (length s) + i)) s else take (nat i) s)"

definition slice_from :: "'a list \<Rightarrow> int \<Rightarrow> 'a list" where
  "slice_from s i = (if i < 0 then drop (nat (int (length s) + i)) s else drop (nat i) s)"

text \<open>\<open>sub in s\<close>.\<close>

fun contains :: "pystr \<Rightarrow> pystr \<Rightarrow> bool" where
  "contains sub [] = (sub = [])"
| "contains sub (c # cs) = (take (length sub) (c # cs) = sub \<or> contains sub cs)"

text \<open>
  \<open>s.replace(old, new)\<close>: every non-overlapping occurrence of \<open>old\<close>, scanning from the
  left. For an empty \<open>old\<close> Python puts \<open>new\<close> before every character and at the end.
\<close>

function replace_scan :: "pystr \<Rightarrow> pystr \<Rightarrow> pystr \<Rightarrow> pystr" where
  "replace_scan old new [] = []"
| "replace_scan old new (c # cs) =
     (if old \<noteq> [] \<and> take (length old) (c # cs) = old
      then new @ replace_scan old new (drop (length old) (c # cs))
      else c # replace_scan old new cs)"
  by pat_completeness auto
termination
  by (relation "measure (\<lambda>(old, new, s). length s)") (auto simp: neq_Nil_conv)

definition str_replace :: "pystr \<Rightarrow> pystr \<Rightarrow> pystr \<Rightarrow> pystr" where
  "str_replace s old new =
     (if old = [] then new @ concat (map (\<lambda>c. c # new) s) else replace_scan old new s)"

text \<open>\<open>str.isspace\<close> on one character, and \<open>s.strip()\<close> with no argument.\<close>

definition isspace :: "nat \<Rightarrow> bool" where
  "isspace c \<longleftrightarrow>
     (9 \<le> c \<and> c \<le> 13) \<or> (28 \<le> c \<and> c \<le> 32) \<or> c = 133 \<or> c = 160 \<or> c = 5760 \<or>
     (8192 \<le> c \<and> c \<le> 8202) \<or> c = 8232 \<or> c = 8233 \<or> c = 8239 \<or> c = 8287 \<or> c = 12288"

definition strip :: "pystr \<Rightarrow> pystr" where
  "strip s = rev (dropWhile isspace (rev (dropWhile isspace s)))"

section \<open>Constants of the module\<close>

definition MAX_FILE_SIZE :: nat where
  "MAX_FILE_SIZE = 1024 * 1024"

definition MAX_MESSAGE_LENGTH :: nat where
  "MAX_MESSAGE_LENGTH = 5000"

section \<open>File tags\<close>

text \<open>
  What \<open>replace_file_tags\<close> asks of the file system for one path: \<open>os.path.exists\<close>,
  then \<open>os.path.getsize\<close>, then \<open>open(...).read()\<close>. The last two can raise; the text of
  the exception is kept, since the code puts it into the message.
\<close>

datatype file_entry = Absent | Present "pystr + nat" "pystr + pystr"

type_synonym filesystem = "pystr \<Rightarrow> file_entry"

definition rbrace :: nat where
  "rbrace = 125"

definition file_tag :: "pystr \<Rightarrow> pystr" where
  "file_tag file_path = ascii ''{{:F'' @ file_path @ ascii ''}}''"

text \<open>
  The pattern \<open>\{\{:F([^}]+)\}\}\<close> tried at the start of \<open>s\<close>: the group is the longest
  run of characters other than \<open>}\<close>, which must not be empty and must be followed by
  \<open>}}\<close> (a shorter run is followed by a character that is not \<open>}\<close>, so backtracking
  finds nothing else). The result is the group and the text after the match.
\<close>

definition match_tag :: "pystr \<Rightarrow> (pystr \<times> pystr) option" where
  "match_tag s =
     (if take 4 s = ascii ''{{:F'' then
        (let body = takeWhile (\<lambda>c. c \<noteq> rbrace) (drop 4 s);
             rest = dropWhile (\<lambda>c. c \<noteq> rbrace) (drop 4 s)
         in if body \<noteq> [] \<and> take 2 rest = [rbrace, rbrace]
            then Some (body, drop 2 rest) else None)
      else None)"

text \<open>\<open>re.findall(pattern, s)\<close>: the groups of the non-overlapping matches, left to right.\<close>

function findall_tags :: "pystr \<Rightarrow> pystr list" where
  "findall_tags [] = []"
| "findall_tags (c # cs) =
     (case match_tag (c # cs) of
        Some (g, r) \<Rightarrow> g # findall_tags r
      | None \<Rightarrow> findall_tags cs)"
  by pat_completeness auto
termination
proof (relation "measure length")
  fix c :: nat and cs g r x
  assume "match_tag (c # cs) = Some x" and "(g, r) = x"
  then have h: "match_tag (c # cs) = Some (g, r)"
    by simp
  let ?d = "dropWhile (\<lambda>c. c \<noteq> rbrace) (drop 4 (c # cs))"
  have "length ?d \<le> length (drop 4 (c # cs))"
    by (rule length_dropWhile_le)
  moreover from h have "r = drop 2 ?d"
    by (auto simp: match_tag_def Let_def split: if_splits)
  ultimately show "(r, c # cs) \<in> measure length"
    by simp
qed simp_all

definition max_file_size_kb :: pystr where
  \<comment> \<open>the text of \<open>MAX_FILE_SIZE/1024\<close>, a float\<close>
  "max_file_size_kb = ascii ''1024.0''"

text \<open>One turn of the loop of \<open>replace_file_tags\<close>, for one group of \<open>findall\<close>.\<close>

definition replace_one_tag :: "filesystem \<Rightarrow> pystr \<Rightarrow> pystr \<Rightarrow> pystr" where
  "replace_one_tag fs input_str found =
     (let file_path = strip found in
      case fs file_path of
        Absent \<Rightarrow>
          str_replace input_str (file_tag file_path)
            ([91, 25991, 20214, 19981, 23384, 22312, 58, 32] @ file_path @ ascii '']'')
      | Present size_result read_result \<Rightarrow>
          (case size_result of
             Inl e \<Rightarrow>
               str_replace input_str (file_tag file_path)
                 ([91, 35835, 21462, 25991, 20214, 20986, 38169, 58, 32] @ e @ ascii '']'')
           | Inr file_size \<Rightarrow>
               if file_size > MAX_FILE_SIZE then
                 str_replace input_str (file_tag file_path)
                   ([91, 25991, 20214, 36807, 22823, 40, 62] @ max_file_size_kb @
                    ascii ''KB): '' @ file_path @ ascii '']'')
               else
                 (case read_result of
                    Inl e \<Rightarrow>
                      str_replace input_str (file_tag file_path)
                        ([91, 35835, 21462, 25991, 20214, 20986, 38169, 58, 32] @ e @ ascii '']'')
                  | Inr content \<Rightarrow>
                      str_replace input_str (file_tag file_path)
                        ([10, 96, 96, 96, 25991, 20214, 20869, 23481, 58] @ file_path @ [10] @
                         content @ [10, 96, 96, 96, 10]))))"

definition replace_file_tags :: "filesystem \<Rightarrow> pystr \<Rightarrow> pystr" where
  "replace_file_tags fs input_str = foldl (replace_one_tag fs) input_str (findall_tags input_str)"

section \<open>The conversation and the session state\<close>

datatype role = User | Assistant | System

record message =
  role :: role
  content :: pystr

text \<open>\<open>ChatConfig\<close>; \<open>headers\<close> is a dict, kept as the list of its items.\<close>

record chat_config =
  name :: pystr
  api_base :: pystr
  api_key :: pystr
  model :: pystr
  request_type :: pystr
  headers :: "(pystr \<times> pystr) list"
  is_infini :: bool

text \<open>
  What the terminal was asked to paint, in order: \<open>redraw\<close> past its throttle,
  \<open>redraw_input_only\<close>, and \<open>update_last_message\<close>.
\<close>

datatype draw = FullRedraw | InputRedraw | LastMessageRedraw

text \<open>A thread started by \<open>send_message\<close>: its target and its \<open>messages_to_send\<close>.\<close>

datatype target = CurlRequest | OpenaiRequest

text \<open>
  The fields of \<open>ChatUI\<close> that its methods read or write, under their names. The window
  and the two fields that are only initialised (\<open>last_message_count\<close>, \<open>cached_lines\<close>)
  are left out. Three fields record what the methods do to the outside: \<open>drawn\<close> the
  calls that paint, \<open>clock_reads\<close> the number of calls of \<open>time.time()\<close> so far, and
  \<open>started\<close> the threads started. \<open>file_placeholders\<close> is a dict, kept as the list of
  its items in insertion order. Times are real numbers.
\<close>

record ui_state =
  configs :: "chat_config list"
  current_config :: chat_config
  messages :: "message list"
  input_history :: "pystr list"
  history_index :: int
  current_input :: pystr
  cursor_pos :: int
  file_placeholders :: "(pystr \<times> pystr) list"
  last_redraw_time :: real
  redraw_throttle :: real
  dirty :: bool
  command_mode :: bool
  command_input :: pystr
  command_cursor_pos :: int
  saved_input :: pystr
  saved_cursor_pos :: int
  drawn :: "draw list"
  clock_reads :: nat
  started :: "(target \<times> message list) list"

text \<open>A saved conversation as \<open>load_history\<close> reads it: the file's name and its fields.\<close>

record history_data =
  file_name :: pystr
  saved_messages :: "(pystr \<times> pystr) list"
  saved_provider :: pystr
  saved_model :: pystr

text \<open>
  What the outside answers while one key is handled: \<open>clock k\<close> is the result of the
  \<open>k\<close>-th call of \<open>time.time()\<close>; \<open>pending_keys\<close> are the results of the
  non-blocking \<open>getch\<close> calls (-1, or nothing left, when no key waits); \<open>files\<close> is the
  file system seen by \<open>replace_file_tags\<close>; \<open>chosen_file\<close> and \<open>chosen_provider\<close> are
  what the two selection screens return; \<open>history_path f\<close> is the text of
  \<open>HISTORY_DIR / f\<close>; \<open>write_error\<close> is the exception of writing the saved file, if any;
  \<open>history_exists\<close> and \<open>history_read\<close> answer \<open>load\<close>; \<open>confirm_key\<close> is the key read
  by \<open>clean\<close>, and \<open>purge_error\<close> the exception of removing the directory, if any.
\<close>

record environment =
  clock :: "nat \<Rightarrow> real"
  pending_keys :: "int list"
  files :: filesystem
  chosen_file :: "pystr option"
  chosen_provider :: "chat_config option"
  history_path :: "pystr \<Rightarrow> pystr"
  write_error :: "pystr option"
  history_exists :: "pystr \<Rightarrow> bool"
  history_read :: "pystr \<Rightarrow> pystr + history_data"
  confirm_key :: int
  purge_error :: "pystr option"

text \<open>\<open>ChatUI.__init__\<close>; it raises IndexError on an empty list of configurations.\<close>

definition init_ui :: "chat_config list \<Rightarrow> ui_state option" where
  "init_ui cs =
     (case cs of
        [] \<Rightarrow> None
      | c # _ \<Rightarrow>
          Some \<lparr>configs = cs, current_config = c, messages = [], input_history = [],
                history_index = -1, current_input = [], cursor_pos = 0,
                file_placeholders = [], last_redraw_time = 0, redraw_throttle = 1 / 10,
                dirty = False, command_mode = False, command_input = [],
                command_cursor_pos = 0, saved_input = [], saved_cursor_pos = 0,
                drawn = [], clock_reads = 0, started = []\<rparr>)"

subsection \<open>Painting\<close>

definition redraw :: "environment \<Rightarrow> bool \<Rightarrow> ui_state \<Rightarrow> ui_state" where
  "redraw env force s =
     (let current_time = clock env (clock_reads s);
          s1 = s\<lparr>clock_reads := clock_reads s + 1\<rparr>
      in if \<not> force \<and> current_time - last_redraw_time s < redraw_throttle s then s1
         else s1\<lparr>last_redraw_time := current_time, drawn := drawn s @ [FullRedraw]\<rparr>)"

definition redraw_input_only :: "ui_state \<Rightarrow> ui_state" where
  "redraw_input_only s = s\<lparr>drawn := drawn s @ [InputRedraw]\<rparr>"

definition update_last_message :: "ui_state \<Rightarrow> ui_state" where
  "update_last_message s = s\<lparr>drawn := drawn s @ [LastMessageRedraw]\<rparr>"

text \<open>
  The text \<open>display_messages\<close> wraps into lines for a message without a file-content
  marker: the placeholders put back as tags, after the label of the role.
\<close>

definition role_prefix :: "role \<Rightarrow> pystr" where
  "role_prefix r =
     (case r of
        User \<Rightarrow> [29992, 25143, 58, 32]
      | Assistant \<Rightarrow> ascii ''AI: ''
      | System \<Rightarrow> [31995, 32479, 58, 32])"

definition display_content :: "(pystr \<times> pystr) list \<Rightarrow> message \<Rightarrow> pystr" where
  "display_content placeholders msg =
     role_prefix (role msg) @
     foldl (\<lambda>text (placeholder, file_path).
              if contains placeholder text
              then str_replace text placeholder (file_tag file_path) else text)
       (content msg) placeholders"

subsection \<open>System messages\<close>

definition add_system_message :: "environment \<Rightarrow> pystr \<Rightarrow> ui_state \<Rightarrow> ui_state" where
  "add_system_message env message s =
     (let message1 =
            (if length message > MAX_MESSAGE_LENGTH
             then take MAX_MESSAGE_LENGTH message @
                  [32, 46, 46, 46, 65288, 28040, 24687, 36807, 38271, 65292, 24050, 25130,
                   26029, 65289]
             else message)
      in redraw env True
           (s\<lparr>messages := messages s @ [\<lparr>role = System, content = message1\<rparr>],
              dirty := True\<rparr>))"

section \<open>Sending a message\<close>

text \<open>
  The first loop of \<open>send_message\<close>, over the items of \<open>file_placeholders\<close>. Its
  result \<open>processed_input\<close> is then cut to the maximal length, and never used.
\<close>

definition expand_placeholder :: "filesystem \<Rightarrow> pystr \<Rightarrow> pystr \<times> pystr \<Rightarrow> pystr" where
  "expand_placeholder fs processed_input item =
     (case item of (placeholder, file_path) \<Rightarrow>
        if contains placeholder processed_input then
          (case fs file_path of
             Absent \<Rightarrow>
               str_replace processed_input placeholder
                 ([91, 25991, 20214, 19981, 23384, 22312, 58, 32] @ file_path @ ascii '']'')
           | Present size_result read_result \<Rightarrow>
               (case size_result of
                  Inl e \<Rightarrow>
                    str_replace processed_input placeholder
                      ([91, 35835, 21462, 25991, 20214, 20986, 38169, 58, 32] @ e @ ascii '']'')
                | Inr file_size \<Rightarrow>
                    if file_size > MAX_FILE_SIZE then
                      str_replace processed_input placeholder
                        ([91, 25991, 20214, 36807, 22823, 40, 62] @ max_file_size_kb @
                         ascii ''KB): '' @ file_path @ ascii '']'')
                    else
                      (case read_result of
                         Inl e \<Rightarrow>
                           str_replace processed_input placeholder
                             ([91, 35835, 21462, 25991, 20214, 20986, 38169, 58, 32] @ e @
                              ascii '']'')
                       | Inr text \<Rightarrow>
                           str_replace processed_input placeholder
                             ([10, 96, 96, 96, 25991, 20214, 20869, 23481, 58] @ file_path @
                              [10] @ text @ [10, 96, 96, 96, 10]))))
        else processed_input)"

definition processed_input :: "filesystem \<Rightarrow> ui_state \<Rightarrow> pystr" where
  "processed_input fs s =
     (let p = foldl (expand_placeholder fs) (current_input s) (file_placeholders s)
      in if length p > MAX_MESSAGE_LENGTH
         then take MAX_MESSAGE_LENGTH p @
              [10, 46, 46, 46, 65288, 28040, 24687, 36807, 38271, 65292, 24050, 25130, 26029,
               65289]
         else p)"

text \<open>
  The second loop of \<open>send_message\<close>, which builds \<open>messages_to_send\<close> from the log:
  \<open>acc\<close> is the list built so far, and \<open>pop(0)\<close> on it is \<open>tl\<close>, the list having ten
  elements there.
\<close>

fun collect_messages :: "filesystem \<Rightarrow> message list \<Rightarrow> message list \<Rightarrow> message list" where
  "collect_messages fs [] acc = acc"
| "collect_messages fs (msg # rest) acc =
     (if role msg = System then collect_messages fs rest acc
      else
        (let text = (if role msg = User then replace_file_tags fs (content msg)
                     else content msg)
         in if length acc < 10
            then collect_messages fs rest (acc @ [\<lparr>role = role msg, content = text\<rparr>])
            else collect_messages fs rest (tl acc @ [\<lparr>role = role msg, content = text\<rparr>])))"

definition messages_to_send :: "filesystem \<Rightarrow> message list \<Rightarrow> message list" where
  "messages_to_send fs msgs = collect_messages fs msgs []"

definition thinking :: pystr where
  "thinking = [27491, 22312, 24605, 32771, 46, 46, 46]"

definition send_message :: "environment \<Rightarrow> ui_state \<Rightarrow> bool \<times> ui_state" where
  "send_message env s =
     (if strip (current_input s) = [] then (False, s)
      else
        (let s1 = s\<lparr>input_history := current_input s # input_history s, history_index := -1\<rparr>;
             unused = processed_input (files env) s1;
             s2 = redraw env True
                    (s1\<lparr>messages := messages s1 @ [\<lparr>role = User, content = current_input s1\<rparr>],
                        dirty := True\<rparr>);
             to_send = messages_to_send (files env) (messages s2);
             s3 = redraw env True
                    (s2\<lparr>messages := messages s2 @ [\<lparr>role = Assistant, content = thinking\<rparr>],
                        dirty := True\<rparr>);
             s4 = s3\<lparr>started := started s3 @
                       [(if request_type (current_config s3) = ascii ''curl''
                         then CurlRequest else OpenaiRequest, to_send)]\<rparr>
         in (False, redraw_input_only (s4\<lparr>current_input := [], cursor_pos := 0\<rparr>))))"

section \<open>The background exchange\<close>

text \<open>\<open>str(n)\<close> for an integer.\<close>

function str_nat :: "nat \<Rightarrow> pystr" where
  "str_nat n = (if n < 10 then [48 + n] else str_nat (n div 10) @ [48 + n mod 10])"
  by pat_completeness auto
termination
  by (relation "measure id") auto

definition str_int :: "int \<Rightarrow> pystr" where
  "str_int i = (if i < 0 then 45 # str_nat (nat (- i)) else str_nat (nat i))"

definition response_truncated :: pystr where
  "response_truncated =
     [10, 46, 46, 46, 65288, 21709, 24212, 36807, 38271, 65292, 24050, 25130, 26029, 65289]"

definition no_valid_response :: pystr where
  "no_valid_response = [60, 65, 73, 26410, 36820, 22238, 26377, 25928, 21709, 24212, 62]"

definition index_error :: pystr where
  "index_error = ascii ''list assignment index out of range''"

text \<open>\<open>self.messages[-1] = m\<close>, which raises IndexError on an empty log.\<close>

definition set_last_message :: "message \<Rightarrow> ui_state \<Rightarrow> ui_state option" where
  "set_last_message m s =
     (if messages s = [] then None else Some (s\<lparr>messages := butlast (messages s) @ [m]\<rparr>))"

subsection \<open>The OpenAI client\<close>

text \<open>
  What the client answers: the chunks of the stream, each with the text of
  \<open>choices[0].delta.content\<close> when it has one, and the exception that ends the stream,
  if any (a call that fails at once has no chunk). The text of an exception is kept.
\<close>

datatype api_error = APIError pystr | OtherError pystr

record openai_response =
  chunks :: "pystr option list"
  raised :: "api_error option"

fun openai_chunks ::
  "pystr option list \<Rightarrow> pystr \<Rightarrow> ui_state \<Rightarrow> (api_error + pystr) \<times> ui_state" where
  "openai_chunks [] full_response s = (Inr full_response, s)"
| "openai_chunks (None # rest) full_response s = openai_chunks rest full_response s"
| "openai_chunks (Some text # rest) full_response s =
     (let full1 = full_response @ text;
          full2 = (if length full1 > MAX_MESSAGE_LENGTH
                   then take MAX_MESSAGE_LENGTH full1 @ response_truncated else full1)
      in case set_last_message \<lparr>role = Assistant, content = full2\<rparr> s of
           None \<Rightarrow> (Inl (OtherError index_error), s)
         | Some s1 \<Rightarrow> openai_chunks rest full2 (update_last_message s1))"

definition report_api_error :: "environment \<Rightarrow> api_error \<Rightarrow> ui_state \<Rightarrow> ui_state" where
  "report_api_error env e s =
     (case e of
        APIError t \<Rightarrow> add_system_message env ([65, 80, 73, 38169, 35823, 58, 32] @ t) s
      | OtherError t \<Rightarrow> add_system_message env ([21457, 29983, 38169, 35823, 58, 32] @ t) s)"

definition send_openai_request ::
  "environment \<Rightarrow> openai_response \<Rightarrow> ui_state \<Rightarrow> ui_state" where
  "send_openai_request env response s =
     (case openai_chunks (chunks response) [] s of
        (Inl e, s1) \<Rightarrow> report_api_error env e s1
      | (Inr full_response, s1) \<Rightarrow>
          (case raised response of
             Some e \<Rightarrow> report_api_error env e s1
           | None \<Rightarrow>
               if full_response = [] then add_system_message env no_valid_response s1
               else s1))"

subsection \<open>The custom HTTP client\<close>

text \<open>
  What \<open>requests\<close> answers: the exception of \<open>post\<close>, if any; the status and text of
  the response; for the single-object dialect what \<open>response.json()\<close> holds; for the
  streaming dialect the lines, and the exception that ends them, if any. A line is
  empty, or not JSON, or makes the parsing raise, or is an object with or without
  \<open>choices[0].delta.content\<close> and with or without a true \<open>done\<close> or \<open>finish_reason\<close>.
\<close>

datatype curl_error = RequestException pystr | OtherException pystr

datatype infini_body = BodyError pystr | NoChoices | NoMessageContent | MessageContent pystr

datatype curl_line = Heartbeat | NotJson | LineError pystr | Data "pystr option" bool

record curl_response =
  post_error :: "curl_error option"
  status_code :: int
  status_text :: pystr
  body :: infini_body
  body_lines :: "curl_line list"
  lines_error :: "curl_error option"

text \<open>
  The loop over the lines. The first component of the result tells whether the loop
  came to the end of the stream, rather than leaving by \<open>break\<close>.
\<close>

fun curl_lines ::
  "environment \<Rightarrow> curl_line list \<Rightarrow> pystr \<Rightarrow> ui_state \<Rightarrow> bool \<times> pystr \<times> ui_state" where
  "curl_lines env [] full_response s = (True, full_response, s)"
| "curl_lines env (Heartbeat # rest) full_response s = curl_lines env rest full_response s"
| "curl_lines env (NotJson # rest) full_response s = curl_lines env rest full_response s"
| "curl_lines env (LineError e # rest) full_response s =
     (False, full_response,
      add_system_message env ([35299, 26512, 38169, 35823, 58, 32] @ e) s)"
| "curl_lines env (Data None stop # rest) full_response s =
     (if stop then (False, full_response, s) else curl_lines env rest full_response s)"
| "curl_lines env (Data (Some text) stop # rest) full_response s =
     (let full1 = full_response @ text;
          full2 = (if length full1 > MAX_MESSAGE_LENGTH
                   then take MAX_MESSAGE_LENGTH full1 @ response_truncated else full1)
      in case set_last_message \<lparr>role = Assistant, content = full2\<rparr> s of
           None \<Rightarrow>
             (False, full2,
              add_system_message env ([35299, 26512, 38169, 35823, 58, 32] @ index_error) s)
         | Some s1 \<Rightarrow>
             if stop then (False, full2, update_last_message s1)
             else curl_lines env rest full2 (update_last_message s1))"

definition report_curl_error :: "environment \<Rightarrow> curl_error \<Rightarrow> ui_state \<Rightarrow> ui_state" where
  "report_curl_error env e s =
     (case e of
        RequestException t \<Rightarrow>
          add_system_message env ([32593, 32476, 38169, 35823, 58, 32] @ t) s
      | OtherException t \<Rightarrow>
          add_system_message env ([21457, 29983, 38169, 35823, 58, 32] @ t) s)"

definition send_curl_request ::
  "environment \<Rightarrow> curl_response \<Rightarrow> ui_state \<Rightarrow> ui_state" where
  "send_curl_request env response s =
     (case post_error response of
        Some e \<Rightarrow> report_curl_error env e s
      | None \<Rightarrow>
          if status_code response \<noteq> 200 then
            add_system_message env
              ([65, 80, 73, 38169, 35823, 58, 32] @ ascii ''HTTP '' @
               str_int (status_code response) @ ascii '' - '' @ status_text response) s
          else if is_infini (current_config s) then
            (case body response of
               BodyError e \<Rightarrow>
                 add_system_message env ([35299, 26512, 21709, 24212, 20986, 38169, 58, 32] @ e) s
             | NoChoices \<Rightarrow> add_system_message env no_valid_response s
             | NoMessageContent \<Rightarrow>
                 add_system_message env
                   ([65, 80, 73, 21709, 24212, 26684, 24335, 19981, 20860, 23481]) s
             | MessageContent full_response \<Rightarrow>
                 (case set_last_message \<lparr>role = Assistant, content = full_response\<rparr> s of
                    None \<Rightarrow>
                      add_system_message env
                        ([35299, 26512, 21709, 24212, 20986, 38169, 58, 32] @ index_error) s
                  | Some s1 \<Rightarrow> update_last_message s1))
          else
            (case curl_lines env (body_lines response) [] s of
               (at_end, full_response, s1) \<Rightarrow>
                 (case (if at_end then lines_error response else None) of
                    Some e \<Rightarrow> report_curl_error env e s1
                  | None \<Rightarrow>
                      if full_response = [] then add_system_message env no_valid_response s1
                      else s1)))"

section \<open>Keys\<close>

text \<open>The key codes of \<open>curses\<close> that the code names, with their values in ncurses.\<close>

definition KEY_ENTER :: int where "KEY_ENTER = 343"
definition KEY_UP :: int where "KEY_UP = 259"
definition KEY_DOWN :: int where "KEY_DOWN = 258"
definition KEY_LEFT :: int where "KEY_LEFT = 260"
definition KEY_RIGHT :: int where "KEY_RIGHT = 261"
definition KEY_BACKSPACE :: int where "KEY_BACKSPACE = 263"

text \<open>\<open>xs[i]\<close>: a negative index counts from the end; out of range it raises IndexError.\<close>

definition py_index :: "'a list \<Rightarrow> int \<Rightarrow> 'a option" where
  "py_index xs i =
     (let n = int (length xs); j = (if i < 0 then n + i else i)
      in if 0 \<le> j \<and> j < n then Some (xs ! nat j) else None)"

text \<open>\<open>chr(i)\<close>, which raises ValueError outside the range of code points.\<close>

definition chr :: "int \<Rightarrow> pystr option" where
  "chr i = (if 0 \<le> i \<and> i \<le> 1114111 then Some [nat i] else None)"

text \<open>\<open>bytes(seq)\<close>, which raises ValueError unless every element is in \<open>range(256)\<close>.\<close>

definition to_bytes :: "int list \<Rightarrow> nat list option" where
  "to_bytes seq = (if list_all (\<lambda>b. 0 \<le> b \<and> b \<le> 255) seq then Some (map nat seq) else None)"

text \<open>
  \<open>bytes.decode('utf-8')\<close>: strict UTF-8, so a truncated sequence, a stray continuation
  byte, an overlong form, a surrogate and a value above \<open>0x10FFFF\<close> all raise
  UnicodeDecodeError (the result \<open>None\<close>).
\<close>

definition continuation :: "nat \<Rightarrow> bool" where
  "continuation b \<longleftrightarrow> 128 \<le> b \<and> b \<le> 191"

fun utf8_decode :: "nat list \<Rightarrow> pystr option" where
  "utf8_decode [] = Some []"
| "utf8_decode (b # bs) =
     (if b < 128 then map_option ((#) b) (utf8_decode bs)
      else if 194 \<le> b \<and> b \<le> 223 then
        (case bs of
           b1 # r \<Rightarrow>
             if continuation b1
             then map_option ((#) ((b - 192) * 64 + (b1 - 128))) (utf8_decode r)
             else None
         | _ \<Rightarrow> None)
      else if 224 \<le> b \<and> b \<le> 239 then
        (case bs of
           b1 # b2 # r \<Rightarrow>
             if continuation b1 \<and> continuation b2 \<and>
                (if b = 224 then 160 \<le> b1 else if b = 237 then b1 \<le> 159 else True)
             then map_option ((#) ((b - 224) * 4096 + (b1 - 128) * 64 + (b2 - 128)))
                    (utf8_decode r)
             else None
         | _ \<Rightarrow> None)
      else if 240 \<le> b \<and> b \<le> 244 then
        (case bs of
           b1 # b2 # b3 # r \<Rightarrow>
             if continuation b1 \<and> continuation b2 \<and> continuation b3 \<and>
                (if b = 240 then 144 \<le> b1 else if b = 244 then b1 \<le> 143 else True)
             then map_option
                    ((#) ((b - 240) * 262144 + (b1 - 128) * 4096 + (b2 - 128) * 64 + (b3 - 128)))
                    (utf8_decode r)
             else None
         | _ \<Rightarrow> None)
      else None)"

text \<open>
  The loop \<open>for _ in range(2)\<close> that reads the keys waiting behind a lead byte: it stops
  at the first \<open>getch\<close> that gives -1 or a code outside 0..255 (this code is lost).
\<close>

fun read_more :: "nat \<Rightarrow> int list \<Rightarrow> int list" where
  "read_more 0 pending = []"
| "read_more (Suc n) [] = []"
| "read_more (Suc n) (next_key # pending) =
     (if next_key \<noteq> -1 \<and> 0 \<le> next_key \<and> next_key \<le> 255
      then next_key # read_more n pending else [])"

text \<open>
  The character of a key in the last branch of \<open>process_input\<close>, lines 872 to 907,
  for a key that passed the range check.
\<close>

definition decode_main :: "int \<Rightarrow> int list \<Rightarrow> pystr option" where
  "decode_main key pending =
     (if key > 127 then
        (let bytes_seq = key # read_more 2 pending
         in case to_bytes bytes_seq of
              None \<Rightarrow> None
            | Some byte_string \<Rightarrow>
                (case utf8_decode byte_string of
                   Some char \<Rightarrow> Some char
                 | None \<Rightarrow> chr (hd bytes_seq)))
      else chr key)"

text \<open>The same lines of \<open>process_command_input\<close>, 986 to 1021.\<close>

definition decode_command :: "int \<Rightarrow> int list \<Rightarrow> pystr option" where
  "decode_command key pending =
     (if key > 127 then
        (let bytes_seq = key # read_more 2 pending
         in case to_bytes bytes_seq of
              None \<Rightarrow> None
            | Some byte_string \<Rightarrow>
                (case utf8_decode byte_string of
                   Some char \<Rightarrow> Some char
                 | None \<Rightarrow> chr (hd bytes_seq)))
      else chr key)"

section \<open>Commands\<close>

definition enter_command_mode :: "ui_state \<Rightarrow> ui_state" where
  "enter_command_mode s =
     s\<lparr>command_mode := True, saved_input := current_input s, saved_cursor_pos := cursor_pos s,
       current_input := [], cursor_pos := 0, command_input := [], command_cursor_pos := 0\<rparr>"

definition exit_command_mode :: "bool \<Rightarrow> ui_state \<Rightarrow> ui_state" where
  "exit_command_mode restore_input s =
     (let s1 = (if restore_input
                then s\<lparr>command_mode := False, current_input := saved_input s,
                       cursor_pos := saved_cursor_pos s\<rparr>
                else s\<lparr>command_mode := False, current_input := [], cursor_pos := 0\<rparr>)
      in s1\<lparr>saved_input := [], saved_cursor_pos := 0\<rparr>)"

text \<open>\<open>d[k] = v\<close> on a dict: a key already there keeps its place.\<close>

fun dict_set :: "('k \<times> 'v) list \<Rightarrow> 'k \<Rightarrow> 'v \<Rightarrow> ('k \<times> 'v) list" where
  "dict_set [] k v = [(k, v)]"
| "dict_set ((k', v') # d) k v = (if k' = k then (k, v) # d else (k', v') # dict_set d k v)"

text \<open>\<open>parts[1] if len(parts) > 1 else None\<close> for \<open>parts = command.split(' ', 1)\<close>.\<close>

definition after_space :: "pystr \<Rightarrow> pystr option" where
  "after_space command =
     (if 32 \<in> set command then Some (tl (dropWhile (\<lambda>c. c \<noteq> 32) command)) else None)"

text \<open>\<open>command.split()[0]\<close>, which raises IndexError when the command is all blank.\<close>

definition first_word :: "pystr \<Rightarrow> pystr option" where
  "first_word command =
     (let w = takeWhile (\<lambda>c. \<not> isspace c) (dropWhile isspace command)
      in if w = [] then None else Some w)"

text \<open>\<open>int(x)\<close> of a float: towards zero.\<close>

definition int_of_time :: "real \<Rightarrow> int" where
  "int_of_time x = (if 0 \<le> x then \<lfloor>x\<rfloor> else \<lceil>x\<rceil>)"

definition load_message :: "pystr \<times> pystr \<Rightarrow> message" where
  "load_message m =
     \<lparr>role = (if fst m = ascii ''user'' then User else Assistant), content = snd m\<rparr>"

definition find_config :: "chat_config list \<Rightarrow> pystr \<Rightarrow> pystr \<Rightarrow> chat_config" where
  "find_config cs provider mdl =
     (case filter (\<lambda>c. name c = provider \<and> model c = mdl) cs of
        c # _ \<Rightarrow> c
      | [] \<Rightarrow> \<lparr>name = provider, api_base = [], api_key = [], model = mdl,
               request_type = ascii ''openai'', headers = [], is_infini = False\<rparr>)"

definition rebuild_placeholders :: "message list \<Rightarrow> (pystr \<times> pystr) list" where
  "rebuild_placeholders msgs =
     foldl (\<lambda>d file_path. dict_set d (file_tag file_path) file_path) []
       (concat (map (\<lambda>msg. if role msg = User then findall_tags (content msg) else []) msgs))"

definition load_history :: "environment \<Rightarrow> pystr \<Rightarrow> ui_state \<Rightarrow> ui_state" where
  "load_history env file_path s =
     (case history_read env file_path of
        Inl e \<Rightarrow> add_system_message env ([21152, 36733, 22833, 36133, 58, 32] @ e) s
      | Inr data \<Rightarrow>
          (let loaded = map load_message
                 (filter (\<lambda>m. fst m = ascii ''user'' \<or> fst m = ascii ''assistant'')
                    (saved_messages data));
               s1 = s\<lparr>messages := loaded,
                      current_config :=
                        find_config (configs s) (saved_provider data) (saved_model data)\<rparr>;
               s2 = add_system_message env
                      ([24050, 21152, 36733, 21382, 21490, 35760, 24405, 58, 32] @ file_name data)
                      s1;
               s3 = add_system_message env
                      ([25552, 20379, 21830, 58, 32] @ saved_provider data @
                       [44, 32, 27169, 22411, 58, 32] @ saved_model data) s2
           in s3\<lparr>file_placeholders := rebuild_placeholders (messages s3)\<rparr>))"

text \<open>
  The branches of \<open>handle_command\<close>, each under the name of its command. What \<open>save\<close>
  writes to the file (the title and the messages without the system ones) leaves the
  session as it is, and only the outcome of the writing is kept.
\<close>

definition command_file :: "environment \<Rightarrow> ui_state \<Rightarrow> ui_state" where
  "command_file env s =
     (case chosen_file env of
        None \<Rightarrow> s
      | Some selected_file \<Rightarrow>
          if selected_file = [] then s
          else
            (let placeholder = file_tag selected_file;
                 s1 = (if saved_input s \<noteq> []
                       then s\<lparr>saved_input := saved_input s @ ascii '' '' @ placeholder,
                              saved_cursor_pos :=
                                int (length (saved_input s @ ascii '' '' @ placeholder))\<rparr>
                       else s\<lparr>saved_input := placeholder,
                              saved_cursor_pos := int (length placeholder)\<rparr>)
             in redraw_input_only
                  (s1\<lparr>file_placeholders :=
                        dict_set (file_placeholders s1) placeholder selected_file\<rparr>)))"

definition command_provider :: "environment \<Rightarrow> ui_state \<Rightarrow> ui_state" where
  "command_provider env s =
     (case chosen_provider env of
        None \<Rightarrow> redraw env True s
      | Some selected_config \<Rightarrow>
          redraw env True
            (add_system_message env
               ([24050, 20999, 25442, 21040, 58, 32] @ name selected_config @ ascii '' ('' @
                model selected_config @ ascii '')'')
               (s\<lparr>current_config := selected_config\<rparr>)))"

definition command_clear :: "environment \<Rightarrow> ui_state \<Rightarrow> ui_state" where
  "command_clear env s =
     redraw env True
       (add_system_message env [23545, 35805, 21382, 21490, 24050, 28165, 38500]
          (s\<lparr>messages := [], file_placeholders := []\<rparr>))"

definition command_save :: "environment \<Rightarrow> pystr \<Rightarrow> ui_state \<Rightarrow> ui_state" where
  "command_save env command s =
     (let given = (case after_space command of None \<Rightarrow> [] | Some f \<Rightarrow> f);
          s1 = (if given = [] then s\<lparr>clock_reads := clock_reads s + 1\<rparr> else s);
          filename1 = (if given = []
                       then ascii ''chat_'' @ str_int (int_of_time (clock env (clock_reads s))) @
                            ascii ''.json''
                       else given);
          filename2 = (if suffix (ascii ''.json'') filename1 then filename1
                       else filename1 @ ascii ''.json'');
          file_path = history_path env filename2;
          s2 = s1\<lparr>clock_reads := clock_reads s1 + 1\<rparr>;
          s3 = (case write_error env of
                  None \<Rightarrow>
                    add_system_message env
                      ([23545, 35805, 24050, 20445, 23384, 21040, 58, 32] @ file_path) s2
                | Some e \<Rightarrow>
                    add_system_message env ([20445, 23384, 22833, 36133, 58, 32] @ e) s2)
      in redraw env True s3)"

definition command_load :: "environment \<Rightarrow> pystr \<Rightarrow> ui_state \<Rightarrow> ui_state" where
  "command_load env command s =
     (let given = (case after_space command of None \<Rightarrow> [] | Some f \<Rightarrow> f)
      in if given \<noteq> [] then
           (let file_path = history_path env given
            in if \<not> history_exists env file_path then
                 add_system_message env
                   ([25991, 20214, 19981, 23384, 22312, 58, 32] @ file_path) s
               else redraw env True (load_history env file_path s))
         else
           (case chosen_file env of
              None \<Rightarrow> redraw env True s
            | Some file_path \<Rightarrow>
                if file_path = [] then redraw env True s
                else redraw env True (load_history env file_path s)))"

definition command_history :: "environment \<Rightarrow> ui_state \<Rightarrow> ui_state" where
  "command_history env s = redraw env True s"

definition command_clean :: "environment \<Rightarrow> ui_state \<Rightarrow> ui_state" where
  "command_clean env s =
     (let s1 = redraw env True
                 (add_system_message env
                    [30830, 23450, 35201, 28165, 29702, 25152, 26377, 21382, 21490, 35760,
                     24405, 21527, 65311, 40, 121, 47, 110, 41] s);
          s2 = (if confirm_key env = 121 \<or> confirm_key env = 89 then
                  (case purge_error env of
                     None \<Rightarrow>
                       add_system_message env
                         [25152, 26377, 21382, 21490, 35760, 24405, 24050, 28165, 29702] s1
                   | Some e \<Rightarrow>
                       add_system_message env ([28165, 29702, 22833, 36133, 58, 32] @ e) s1)
                else
                  add_system_message env [28165, 29702, 25805, 20316, 24050, 21462, 28040] s1)
      in redraw env True s2)"

text \<open>The last lines, for a command that no branch takes.\<close>

definition command_unknown :: "environment \<Rightarrow> pystr \<Rightarrow> ui_state \<Rightarrow> ui_state option" where
  "command_unknown env command s =
     (case (if 32 \<in> set command then first_word command else Some command) of
        None \<Rightarrow> None
      | Some shown \<Rightarrow>
          Some (add_system_message env ([26410, 30693, 21629, 20196, 58, 32] @ shown) s))"

definition handle_command :: "environment \<Rightarrow> pystr \<Rightarrow> ui_state \<Rightarrow> (bool \<times> ui_state) option" where
  "handle_command env command s =
     (if prefix (ascii ''file'') command \<or> prefix (ascii ''f'') command then
        Some (False, command_file env s)
      else if prefix (ascii ''provider'') command \<or> prefix (ascii ''p'') command then
        Some (False, command_provider env s)
      else if prefix (ascii ''clear'') command \<or> prefix (ascii ''cr'') command then
        Some (False, command_clear env s)
      else if prefix (ascii ''save'') command \<or> prefix (ascii ''s'') command then
        Some (False, command_save env command s)
      else if prefix (ascii ''load'') command \<or> prefix (ascii ''l'') command then
        Some (False, command_load env command s)
      else if prefix (ascii ''history'') command \<or> prefix (ascii ''h'') command then
        Some (False, command_history env s)
      else if prefix (ascii ''clean'') command \<or> prefix (ascii ''cn'') command then
        Some (False, command_clean env s)
      else if prefix (ascii ''exit'') command \<or> prefix (ascii ''quit'') command then
        Some (True, s)
      else map_option (Pair False) (command_unknown env command s))"

section \<open>Handling a key\<close>

text \<open>
  Both methods return the exit flag with the new state; \<open>None\<close> is an exception that
  nothing catches (an IndexError of \<open>input_history[history_index]\<close> or of
  \<open>command.split()[0]\<close>), which ends the program.
\<close>

definition process_command_input ::
  "environment \<Rightarrow> int \<Rightarrow> ui_state \<Rightarrow> (bool \<times> ui_state) option" where
  "process_command_input env key s =
     (if key = KEY_ENTER \<or> key = 10 \<or> key = 13 then
        (case handle_command env (command_input s) s of
           None \<Rightarrow> None
         | Some (flag, s1) \<Rightarrow> Some (False, exit_command_mode True s1))
      else if key = 27 then Some (False, redraw_input_only (exit_command_mode True s))
      else if key = KEY_BACKSPACE \<or> key = 127 then
        Some (False,
          redraw_input_only
            (if command_cursor_pos s > 0
             then s\<lparr>command_input :=
                      slice_to (command_input s) (command_cursor_pos s - 1) @
                      slice_from (command_input s) (command_cursor_pos s),
                    command_cursor_pos := command_cursor_pos s - 1\<rparr>
             else s))
      else if key = KEY_LEFT then
        Some (False,
          redraw_input_only
            (if command_cursor_pos s > 0
             then s\<lparr>command_cursor_pos := command_cursor_pos s - 1\<rparr> else s))
      else if key = KEY_RIGHT then
        Some (False,
          redraw_input_only
            (if command_cursor_pos s < int (length (command_input s))
             then s\<lparr>command_cursor_pos := command_cursor_pos s + 1\<rparr> else s))
      else if key < 0 \<or> key > 1114111 then Some (False, s)
      else
        (case decode_command key (pending_keys env) of
           None \<Rightarrow> Some (False, redraw_input_only s)
         | Some char \<Rightarrow>
             if char = [] then Some (False, redraw_input_only s)
             else
               Some (False,
                 redraw_input_only
                   (s\<lparr>command_input :=
                        slice_to (command_input s) (command_cursor_pos s) @ char @
                        slice_from (command_input s) (command_cursor_pos s),
                      command_cursor_pos := command_cursor_pos s + int (length char)\<rparr>))))"

definition process_input ::
  "environment \<Rightarrow> int \<Rightarrow> ui_state \<Rightarrow> (bool \<times> ui_state) option" where
  "process_input env key s =
     (if command_mode s then process_command_input env key s
      else if key = KEY_ENTER \<or> key = 10 \<or> key = 13 then Some (send_message env s)
      else if key = 12 then Some (False, redraw_input_only (enter_command_mode s))
      else if key = KEY_UP then
        (if input_history s \<noteq> [] \<and> history_index s < int (length (input_history s)) - 1 then
           (case py_index (input_history s) (history_index s + 1) of
              None \<Rightarrow> None
            | Some recalled \<Rightarrow>
                Some (False,
                  redraw_input_only
                    (s\<lparr>history_index := history_index s + 1, current_input := recalled,
                       cursor_pos := int (length recalled)\<rparr>)))
         else Some (False, redraw_input_only s))
      else if key = KEY_DOWN then
        (if input_history s \<noteq> [] \<and> history_index s > 0 then
           (case py_index (input_history s) (history_index s - 1) of
              None \<Rightarrow> None
            | Some recalled \<Rightarrow>
                Some (False,
                  redraw_input_only
                    (s\<lparr>history_index := history_index s - 1, current_input := recalled,
                       cursor_pos := int (length recalled)\<rparr>)))
         else if input_history s \<noteq> [] \<and> history_index s = 0 then
           Some (False,
             redraw_input_only (s\<lparr>history_index := -1, current_input := [], cursor_pos := 0\<rparr>))
         else Some (False, redraw_input_only s))
      else if key = KEY_LEFT then
        Some (False,
          redraw_input_only (if cursor_pos s > 0 then s\<lparr>cursor_pos := cursor_pos s - 1\<rparr> else s))
      else if key = KEY_RIGHT then
        Some (False,
          redraw_input_only
            (if cursor_pos s < int (length (current_input s))
             then s\<lparr>cursor_pos := cursor_pos s + 1\<rparr> else s))
      else if key = KEY_BACKSPACE \<or> key = 127 then
        Some (False,
          redraw_input_only
            (if cursor_pos s > 0
             then s\<lparr>current_input :=
                      slice_to (current_input s) (cursor_pos s - 1) @
                      slice_from (current_input s) (cursor_pos s),
                    cursor_pos := cursor_pos s - 1\<rparr>
             else s))
      else if key = 27 then handle_command env (ascii ''exit'') s
      else if key < 0 \<or> key > 1114111 then Some (False, s)
      else
        (case decode_main key (pending_keys env) of
           None \<Rightarrow> Some (False, redraw_input_only s)
         | Some char \<Rightarrow>
             if char = [] then Some (False, redraw_input_only s)
             else
               Some (False,
                 redraw_input_only
                   (s\<lparr>current_input :=
                        slice_to (current_input s) (cursor_pos s) @ char @
                        slice_from (current_input s) (cursor_pos s),
                      cursor_pos := cursor_pos s + int (length char)\<rparr>))))"

text \<open>One turn of the loop of \<open>chat_ui\<close>: a throttled redraw, then the key.\<close>

definition loop_step ::
  "environment \<Rightarrow> int \<Rightarrow> ui_state \<Rightarrow> (bool \<times> ui_state) option" where
  "loop_step env key s = process_input env key (redraw env False s)"

text \<open>
  The states of a session: the loop of \<open>chat_ui\<close> from a fresh \<open>ChatUI\<close> (its three
  greetings are system messages), with the threads that \<open>send_message\<close> starts running
  between two keys, whatever the outside answers.
\<close>

inductive reachable :: "ui_state \<Rightarrow> bool" where
  start: "init_ui cs = Some s \<Longrightarrow> reachable s"
| notice: "reachable s \<Longrightarrow> reachable (add_system_message env m s)"
| key: "reachable s \<Longrightarrow> loop_step env k s = Some (False, s') \<Longrightarrow> reachable s'"
| openai: "reachable s \<Longrightarrow> reachable (send_openai_request env r s)"
| curl: "reachable s \<Longrightarrow> reachable (send_curl_request env c s)"

section \<open>Notions used in the statements\<close>

text \<open>A message as it is handed to the client: the tags of a user message resolved.\<close>

definition resolve_tags :: "filesystem \<Rightarrow> message \<Rightarrow> message" where
  "resolve_tags fs msg =
     \<lparr>role = role msg,
      content = (if role msg = User then replace_file_tags fs (content msg) else content msg)\<rparr>"

text \<open>
  A session for the examples: one configuration, a clock that advances by one second at
  each reading, no key waiting, one file \<open>notes.txt\<close> of 50 bytes, and selection
  screens that are cancelled.
\<close>

definition example_config :: chat_config where
  "example_config =
     \<lparr>name = ascii ''OpenRouter'', api_base = ascii ''https://openrouter.ai/api/v1'',
      api_key = ascii ''API-KEY'', model = ascii ''deepseek/deepseek-r1:free'',
      request_type = ascii ''openai'', headers = [], is_infini = False\<rparr>"

definition notes_txt :: pystr where
  "notes_txt = ascii ''Buy milk. Call Sam at 5pm. Fix the leaking faucet.''"

definition example_env :: environment where
  "example_env =
     \<lparr>clock = (\<lambda>k. real k), pending_keys = [],
      files = (\<lambda>p. if p = ascii ''notes.txt'' then Present (Inr 50) (Inr notes_txt) else Absent),
      chosen_file = None, chosen_provider = None,
      history_path = (\<lambda>f. ascii ''chat_history/'' @ f), write_error = None,
      history_exists = (\<lambda>f. False),
      history_read = (\<lambda>f. Inl (ascii ''No such file or directory'')),
      confirm_key = 110, purge_error = None\<rparr>"

definition fresh_ui :: ui_state where
  "fresh_ui =
     \<lparr>configs = [example_config], current_config = example_config, messages = [],
      input_history = [], history_index = -1, current_input = [], cursor_pos = 0,
      file_placeholders = [], last_redraw_time = 0, redraw_throttle = 1 / 10,
      dirty = False, command_mode = False, command_input = [],
      command_cursor_pos = 0, saved_input = [], saved_cursor_pos = 0,
      drawn = [], clock_reads = 0, started = []\<rparr>"

text \<open>The fresh session with a text typed into the main input, the cursor at its end.\<close>

definition typed :: "pystr \<Rightarrow> ui_state" where
  "typed t = fresh_ui\<lparr>current_input := t, cursor_pos := int (length t)\<rparr>"

text \<open>
  The texts that a stream carries, in order: for the OpenAI client those of its chunks,
  for the custom client those of the lines that the loop reads before it leaves; and the
  text of the exception that makes the loop over the lines leave, if there is one.
  \<open>clamp_response\<close> is the cut that both loops apply, \<open>system_notice\<close> the message
  that \<open>add_system_message\<close> appends, and \<open>stored_log\<close> the log after a loop that
  started with the accumulated text \<open>x\<close>.
\<close>

fun openai_deltas :: "pystr option list \<Rightarrow> pystr list" where
  "openai_deltas [] = []"
| "openai_deltas (None # rest) = openai_deltas rest"
| "openai_deltas (Some t # rest) = t # openai_deltas rest"

fun curl_deltas :: "curl_line list \<Rightarrow> pystr list" where
  "curl_deltas [] = []"
| "curl_deltas (Heartbeat # rest) = curl_deltas rest"
| "curl_deltas (NotJson # rest) = curl_deltas rest"
| "curl_deltas (LineError e # rest) = []"
| "curl_deltas (Data None stop # rest) = (if stop then [] else curl_deltas rest)"
| "curl_deltas (Data (Some t) stop # rest) = t # (if stop then [] else curl_deltas rest)"

fun curl_failure :: "curl_line list \<Rightarrow> pystr option" where
  "curl_failure [] = None"
| "curl_failure (Heartbeat # rest) = curl_failure rest"
| "curl_failure (NotJson # rest) = curl_failure rest"
| "curl_failure (LineError e # rest) = Some e"
| "curl_failure (Data t stop # rest) = (if stop then None else curl_failure rest)"

definition clamp_response :: "pystr \<Rightarrow> pystr" where
  "clamp_response t =
     (if length t > MAX_MESSAGE_LENGTH then take MAX_MESSAGE_LENGTH t @ response_truncated else t)"

definition system_notice :: "pystr \<Rightarrow> message" where
  "system_notice m =
     \<lparr>role = System,
      content = (if length m > MAX_MESSAGE_LENGTH
                 then take MAX_MESSAGE_LENGTH m @
                      [32, 46, 46, 46, 65288, 28040, 24687, 36807, 38271, 65292, 24050, 25130,
                       26029, 65289]
                 else m)\<rparr>"

definition stored_log :: "message list \<Rightarrow> pystr \<Rightarrow> pystr list \<Rightarrow> message list" where
  "stored_log msgs x ds =
     (if ds = [] then msgs
      else butlast msgs @ [\<lparr>role = Assistant, content = clamp_response (x @ concat ds)\<rparr>])"

text \<open>The notices of the two clients for an exception.\<close>

definition api_notice :: "api_error \<Rightarrow> message" where
  "api_notice e =
     (case e of
        APIError t \<Rightarrow> system_notice ([65, 80, 73, 38169, 35823, 58, 32] @ t)
      | OtherError t \<Rightarrow> system_notice ([21457, 29983, 38169, 35823, 58, 32] @ t))"

definition curl_notice :: "curl_error \<Rightarrow> message" where
  "curl_notice e =
     (case e of
        RequestException t \<Rightarrow> system_notice ([32593, 32476, 38169, 35823, 58, 32] @ t)
      | OtherException t \<Rightarrow> system_notice ([21457, 29983, 38169, 35823, 58, 32] @ t))"

text \<open>
  The example session after \<open>hi\<close> was typed and sent, a reply of 5001 characters, and
  streams with it or with no text at all.
\<close>

definition waiting_ui :: ui_state where
  "waiting_ui = snd (send_message example_env (typed (ascii ''hi'')))"

definition long_reply :: pystr where
  "long_reply = replicate 5001 97"

definition long_stream :: openai_response where
  "long_stream = \<lparr>chunks = [Some long_reply], raised = None\<rparr>"

definition long_lines :: curl_response where
  "long_lines =
     \<lparr>post_error = None, status_code = 200, status_text = [], body = NoChoices,
      body_lines = [Heartbeat, Data (Some long_reply) False], lines_error = None\<rparr>"

definition empty_stream :: openai_response where
  "empty_stream = \<lparr>chunks = [None, Some []], raised = None\<rparr>"

definition empty_lines :: curl_response where
  "empty_lines =
     \<lparr>post_error = None, status_code = 200, status_text = [], body = NoChoices,
      body_lines = [Heartbeat, NotJson, Data None True], lines_error = None\<rparr>"

section \<open>The window of messages handed to the client\<close>

lemma collect_messages_window:
  "length acc \<le> 10 \<Longrightarrow>
   collect_messages fs msgs acc =
     (let all = acc @ map (resolve_tags fs) (filter (\<lambda>m. role m \<noteq> System) msgs)
      in drop (length all - 10) all)"
proof (induction msgs arbitrary: acc)
  case Nil
  then show ?case by simp
next
  case (Cons msg rest)
  show ?case
  proof (cases "role msg = System")
    case True
    with Cons show ?thesis by simp
  next
    case False
    let ?m = "resolve_tags fs msg"
    let ?tail = "map (resolve_tags fs) (filter (\<lambda>m. role m \<noteq> System) rest)"
    show ?thesis
    proof (cases "length acc < 10")
      case True
      then have "length (acc @ [?m]) \<le> 10" by simp
      from Cons.IH [OF this] False True show ?thesis
        by (simp add: Let_def resolve_tags_def)
    next
      case full: False
      with Cons.prems have len: "length acc = 10" by simp
      then obtain a acc' where acc: "acc = a # acc'" by (cases acc) auto
      have "length (tl acc @ [?m]) \<le> 10" using len by simp
      from Cons.IH [OF this]
      have ih: "collect_messages fs rest (tl acc @ [?m]) =
                  drop (length (acc' @ ?m # ?tail) - 10) (acc' @ ?m # ?tail)"
        by (simp add: Let_def acc)
      have l9: "length acc' = 9" using len acc by simp
      have "length (acc @ ?m # ?tail) - 10 = Suc (length (acc' @ ?m # ?tail) - 10)"
        using l9 acc by simp
      then have "drop (length (acc @ ?m # ?tail) - 10) (acc @ ?m # ?tail) =
                 drop (length (acc' @ ?m # ?tail) - 10) (acc' @ ?m # ?tail)"
        by (simp add: acc)
      moreover have "collect_messages fs (msg # rest) acc =
                     collect_messages fs rest (tl acc @ [?m])"
        using False full by (simp add: Let_def resolve_tags_def)
      moreover have "map (resolve_tags fs) (filter (\<lambda>m. role m \<noteq> System) (msg # rest)) = ?m # ?tail"
        using False by simp
      ultimately show ?thesis
        using ih by (simp only: Let_def)
    qed
  qed
qed

lemma messages_to_send_window:
  "messages_to_send fs msgs =
     (let ns = filter (\<lambda>m. role m \<noteq> System) msgs
      in map (resolve_tags fs) (drop (length ns - 10) ns))"
  by (simp add: messages_to_send_def collect_messages_window Let_def drop_map)

lemma started_send_message:
  "strip (current_input s) \<noteq> [] \<Longrightarrow>
   started (snd (send_message env s)) =
     started s @
       [(if request_type (current_config s) = ascii ''curl'' then CurlRequest else OpenaiRequest,
         messages_to_send (files env) (messages s @ [\<lparr>role = User, content = current_input s\<rparr>]))]"
  by (simp add: send_message_def Let_def redraw_def redraw_input_only_def)


lemma list_all_drop: "list_all P xs \<Longrightarrow> list_all P (drop n xs)"
  by (auto simp: list_all_iff dest: in_set_dropD)

text \<open>
  Claim C4. Whenever \<open>send_message\<close> sends (the input is not blank), the list handed to
  the thread it starts is made of the last ten messages of the log that are not system
  messages, the new user message included, in their order and with the tags of user
  messages resolved: it has at most ten messages, none of them a system message, and the
  oldest ones are the ones dropped.
\<close>

theorem send_message_window:
  assumes "strip (current_input s) \<noteq> []"
  shows "let sent = snd (last (started (snd (send_message env s))));
             ns = filter (\<lambda>m. role m \<noteq> System)
                    (messages s @ [\<lparr>role = User, content = current_input s\<rparr>])
         in sent = map (resolve_tags (files env)) (drop (length ns - 10) ns) \<and>
            length sent \<le> 10 \<and>
            list_all (\<lambda>m. role m \<noteq> System) sent"
proof -
  define ns where "ns = filter (\<lambda>m. role m \<noteq> System)
               (messages s @ [\<lparr>role = User, content = current_input s\<rparr>])"
  have "list_all (\<lambda>m. role m \<noteq> System) ns"
    unfolding ns_def list_all_iff by simp
  then have "list_all (\<lambda>m. role m \<noteq> System) (drop (length ns - 10) ns)"
    by (rule list_all_drop)
  then have a: "list_all (\<lambda>m. role m \<noteq> System) (map (resolve_tags (files env)) (drop (length ns - 10) ns))"
    by (simp add: list_all_iff resolve_tags_def)
  have b: "length (map (resolve_tags (files env)) (drop (length ns - 10) ns)) \<le> 10"
    by simp
  have c: "snd (last (started (snd (send_message env s)))) =
             map (resolve_tags (files env)) (drop (length ns - 10) ns)"
    using assms unfolding ns_def
    by (simp add: started_send_message messages_to_send_window Let_def del: filter_append)
  show ?thesis
    unfolding Let_def ns_def [symmetric] c using a b by simp
qed


theorem send_message_window_witness:
  "strip (current_input (typed (ascii ''hi''))) \<noteq> [] \<and>
   (let sent = snd (last (started (snd (send_message example_env (typed (ascii ''hi''))))));
        ns = filter (\<lambda>m. role m \<noteq> System)
               (messages (typed (ascii ''hi'')) @
                [\<lparr>role = User, content = current_input (typed (ascii ''hi''))\<rparr>])
    in sent = map (resolve_tags (files example_env)) (drop (length ns - 10) ns) \<and>
       length sent \<le> 10 \<and>
       list_all (\<lambda>m. role m \<noteq> System) sent)"
proof -
  have h: "strip (current_input (typed (ascii ''hi''))) \<noteq> []"
    by (simp add: typed_def fresh_ui_def strip_def isspace_def ascii_def)
  from h send_message_window [OF h, of example_env] show ?thesis
    by (rule conjI)
qed

section \<open>The log after a background exchange\<close>

lemma messages_add_system_message:
  "messages (add_system_message env m s) = messages s @ [system_notice m]"
  by (simp add: add_system_message_def system_notice_def redraw_def Let_def)

lemma clamp_response_step:
  "(let full1 = clamp_response x @ t
    in if length full1 > MAX_MESSAGE_LENGTH
       then take MAX_MESSAGE_LENGTH full1 @ response_truncated else full1) =
   clamp_response (x @ t)"
  by (simp add: clamp_response_def Let_def)

lemma clamp_response_Nil: "clamp_response [] = []"
  by (simp add: clamp_response_def)

lemma messages_update_last_message: "messages (update_last_message s) = messages s"
  by (simp add: update_last_message_def)

lemma openai_chunks_result:
  "messages s \<noteq> [] \<Longrightarrow>
   \<exists>s'. openai_chunks cs (clamp_response x) s =
          (Inr (clamp_response (x @ concat (openai_deltas cs))), s') \<and>
        messages s' = stored_log (messages s) x (openai_deltas cs)"
proof (induction cs arbitrary: x s)
  case Nil
  then show ?case by (simp add: stored_log_def)
next
  case (Cons c cs)
  show ?case
  proof (cases c)
    case None
    with Cons show ?thesis by simp
  next
    case (Some t)
    let ?m = "\<lparr>role = Assistant, content = clamp_response (x @ t)\<rparr>"
    let ?s1 = "update_last_message (s\<lparr>messages := butlast (messages s) @ [?m]\<rparr>)"
    have ne: "messages ?s1 \<noteq> []" by (simp add: update_last_message_def)
    from Cons.IH [OF ne, of "x @ t"] obtain s' where
      run: "openai_chunks cs (clamp_response (x @ t)) ?s1 =
              (Inr (clamp_response ((x @ t) @ concat (openai_deltas cs))), s')"
      and log: "messages s' = stored_log (messages ?s1) (x @ t) (openai_deltas cs)"
      by blast
    have step: "openai_chunks (c # cs) (clamp_response x) s =
                openai_chunks cs (clamp_response (x @ t)) ?s1"
      using Some Cons.prems clamp_response_step [of x t]
      by (simp add: set_last_message_def Let_def)
    have "messages s' = stored_log (messages s) x (openai_deltas (c # cs))"
      using log Some by (simp add: stored_log_def update_last_message_def)
    with step run Some show ?thesis
      by simp
  qed
qed

lemma curl_lines_result:
  "messages s \<noteq> [] \<Longrightarrow>
   \<exists>s'. snd (curl_lines env ls (clamp_response x) s) =
          (clamp_response (x @ concat (curl_deltas ls)), s') \<and>
        messages s' =
          stored_log (messages s) x (curl_deltas ls) @
          (case curl_failure ls of
             None \<Rightarrow> []
           | Some e \<Rightarrow> [system_notice ([35299, 26512, 38169, 35823, 58, 32] @ e)]) \<and>
        current_config s' = current_config s"
proof (induction ls arbitrary: x s)
  case Nil
  then show ?case by (auto simp add: stored_log_def)
next
  case (Cons l ls)
  show ?case
  proof (cases l)
    case Heartbeat
    with Cons show ?thesis by simp
  next
    case NotJson
    with Cons show ?thesis by simp
  next
    case (LineError e)
    then show ?thesis
      by (auto simp add: stored_log_def messages_add_system_message) (simp add: add_system_message_def redraw_def Let_def)
  next
    case (Data d stop)
    show ?thesis
    proof (cases d)
      case None
      with Data Cons show ?thesis by (auto simp add: stored_log_def)
    next
      case (Some t)
      let ?m = "\<lparr>role = Assistant, content = clamp_response (x @ t)\<rparr>"
      let ?s1 = "update_last_message (s\<lparr>messages := butlast (messages s) @ [?m]\<rparr>)"
      have ne: "messages ?s1 \<noteq> []" by (simp add: update_last_message_def)
      have log1: "messages ?s1 = butlast (messages s) @ [?m]"
        and cfg1: "current_config ?s1 = current_config s"
        by (simp_all add: update_last_message_def)
      show ?thesis
      proof (cases stop)
        case True
        have "curl_lines env (l # ls) (clamp_response x) s = (False, clamp_response (x @ t), ?s1)"
          using Some Data True Cons.prems clamp_response_step [of x t]
          by (simp add: set_last_message_def Let_def)
        then show ?thesis
          using Some Data True log1 cfg1 by (simp add: stored_log_def)
      next
        case False
        from Cons.IH [OF ne, of "x @ t"] obtain s' where
          run: "snd (curl_lines env ls (clamp_response (x @ t)) ?s1) =
                  (clamp_response ((x @ t) @ concat (curl_deltas ls)), s')"
          and log: "messages s' = stored_log (messages ?s1) (x @ t) (curl_deltas ls) @
             (case curl_failure ls of
                None \<Rightarrow> []
              | Some e \<Rightarrow> [system_notice ([35299, 26512, 38169, 35823, 58, 32] @ e)])"
          and cfg: "current_config s' = current_config ?s1"
          by blast
        have step: "curl_lines env (l # ls) (clamp_response x) s =
                    curl_lines env ls (clamp_response (x @ t)) ?s1"
          using Some Data False Cons.prems clamp_response_step [of x t]
          by (simp add: set_last_message_def Let_def)
        have "stored_log (messages ?s1) (x @ t) (curl_deltas ls) =
              stored_log (messages s) x (curl_deltas (l # ls))"
          using Some Data False log1 by (simp add: stored_log_def)
        with step run log cfg cfg1 Some Data False show ?thesis
          by simp
      qed
    qed
  qed
qed

lemma clamp_response_empty: "clamp_response x = [] \<longleftrightarrow> x = []"
  by (auto simp add: clamp_response_def response_truncated_def)

lemma stored_log_nth:
  "msgs \<noteq> [] \<Longrightarrow> ds \<noteq> [] \<Longrightarrow>
   (stored_log msgs x ds @ extra) ! (length msgs - 1) =
     \<lparr>role = Assistant, content = clamp_response (x @ concat ds)\<rparr>"
proof -
  assume "msgs \<noteq> []" and ds: "ds \<noteq> []"
  have "length (butlast msgs) = length msgs - 1" by simp
  then show ?thesis
    using ds by (simp add: stored_log_def nth_append del: length_butlast)
qed

lemma messages_report_api_error:
  "messages (report_api_error env e s) = messages s @ [api_notice e]"
  by (cases e) (simp_all add: report_api_error_def api_notice_def messages_add_system_message)

lemma messages_report_curl_error:
  "messages (report_curl_error env e s) = messages s @ [curl_notice e]"
  by (cases e) (simp_all add: report_curl_error_def curl_notice_def messages_add_system_message)

lemma send_openai_request_log:
  assumes "messages s \<noteq> []"
  shows "messages (send_openai_request env r s) =
           stored_log (messages s) [] (openai_deltas (chunks r)) @
           (case raised r of
              Some e \<Rightarrow> [api_notice e]
            | None \<Rightarrow>
                if concat (openai_deltas (chunks r)) = [] then [system_notice no_valid_response]
                else [])"
proof -
  from openai_chunks_result [OF assms, of "chunks r" "[]"] obtain s' where
    run: "openai_chunks (chunks r) [] s =
            (Inr (clamp_response (concat (openai_deltas (chunks r)))), s')"
    and log: "messages s' = stored_log (messages s) [] (openai_deltas (chunks r))"
    by (auto simp: clamp_response_Nil)
  show ?thesis
    by (simp add: send_openai_request_def run log messages_report_api_error
          messages_add_system_message clamp_response_empty split: option.split)
qed

lemma send_curl_request_log:
  assumes "messages s \<noteq> []" and "post_error c = None" and "status_code c = 200"
    and "\<not> is_infini (current_config s)"
  shows "\<exists>extra. messages (send_curl_request env c s) =
           stored_log (messages s) [] (curl_deltas (body_lines c)) @ extra \<and>
           (curl_failure (body_lines c) = None \<and> lines_error c = None \<longrightarrow>
            extra = (if concat (curl_deltas (body_lines c)) = []
                     then [system_notice no_valid_response] else []))"
proof -
  from curl_lines_result [OF assms(1), of env "body_lines c" "[]"] obtain s' where
    run: "snd (curl_lines env (body_lines c) [] s) =
            (clamp_response (concat (curl_deltas (body_lines c))), s')"
    and log: "messages s' = stored_log (messages s) [] (curl_deltas (body_lines c)) @
          (case curl_failure (body_lines c) of
             None \<Rightarrow> []
           | Some e \<Rightarrow> [system_notice ([35299, 26512, 38169, 35823, 58, 32] @ e)])"
    by (auto simp: clamp_response_Nil)
  obtain at_end where
    run': "curl_lines env (body_lines c) [] s =
             (at_end, clamp_response (concat (curl_deltas (body_lines c))), s')"
    using run by (cases "curl_lines env (body_lines c) [] s") auto
  show ?thesis
    using assms(2-4)
    by (auto simp add: send_curl_request_def run' log messages_report_curl_error
          messages_add_system_message clamp_response_empty split: option.split)
qed

lemma truncated_stored:
  assumes "msgs \<noteq> []" and "MAX_MESSAGE_LENGTH < length (concat ds)"
  shows "let stored = (stored_log msgs [] ds @ extra) ! (length msgs - 1)
         in role stored = Assistant \<and>
            content stored = take MAX_MESSAGE_LENGTH (concat ds) @ response_truncated \<and>
            length (content stored) = MAX_MESSAGE_LENGTH + length response_truncated \<and>
            suffix response_truncated (content stored)"
proof -
  from assms(2) have "ds \<noteq> []" by auto
  from stored_log_nth [OF assms(1) this, of "[]" extra] assms(2) show ?thesis
    by (simp add: Let_def clamp_response_def suffix_def)
qed

lemma messages_waiting_ui:
  "messages waiting_ui =
     [\<lparr>role = User, content = ascii ''hi''\<rparr>, \<lparr>role = Assistant, content = thinking\<rparr>]"
  by (simp add: waiting_ui_def send_message_def typed_def fresh_ui_def strip_def isspace_def
        ascii_def Let_def redraw_def redraw_input_only_def)

lemma current_config_waiting_ui: "current_config waiting_ui = example_config"
  by (simp add: waiting_ui_def send_message_def typed_def fresh_ui_def strip_def isspace_def
        ascii_def Let_def redraw_def redraw_input_only_def)

text \<open>
  Claim C3. For a streamed response, through either client, whose texts together are
  longer than \<open>MAX_MESSAGE_LENGTH\<close>, the assistant message stored in the log, at the
  place of the message that was last when the exchange began, is the first
  \<open>MAX_MESSAGE_LENGTH\<close> characters followed by the truncation marker: its length is
  exactly the maximum plus the length of the marker, and it ends with the marker. This
  holds however the stream ends.
\<close>

theorem truncated_response_stored:
  assumes "messages s \<noteq> []"
  shows "(MAX_MESSAGE_LENGTH < length (concat (openai_deltas (chunks r))) \<longrightarrow>
            (let stored = messages (send_openai_request env r s) ! (length (messages s) - 1)
             in role stored = Assistant \<and>
                content stored =
                  take MAX_MESSAGE_LENGTH (concat (openai_deltas (chunks r))) @
                  response_truncated \<and>
                length (content stored) = MAX_MESSAGE_LENGTH + length response_truncated \<and>
                suffix response_truncated (content stored))) \<and>
         (post_error c = None \<and> status_code c = 200 \<and> \<not> is_infini (current_config s) \<and>
          MAX_MESSAGE_LENGTH < length (concat (curl_deltas (body_lines c))) \<longrightarrow>
            (let stored = messages (send_curl_request env c s) ! (length (messages s) - 1)
             in role stored = Assistant \<and>
                content stored =
                  take MAX_MESSAGE_LENGTH (concat (curl_deltas (body_lines c))) @
                  response_truncated \<and>
                length (content stored) = MAX_MESSAGE_LENGTH + length response_truncated \<and>
                suffix response_truncated (content stored)))"
proof (intro conjI impI)
  assume "MAX_MESSAGE_LENGTH < length (concat (openai_deltas (chunks r)))"
  from truncated_stored [OF assms this]
  show "let stored = messages (send_openai_request env r s) ! (length (messages s) - 1)
        in role stored = Assistant \<and>
           content stored =
             take MAX_MESSAGE_LENGTH (concat (openai_deltas (chunks r))) @ response_truncated \<and>
           length (content stored) = MAX_MESSAGE_LENGTH + length response_truncated \<and>
           suffix response_truncated (content stored)"
    by (simp only: send_openai_request_log [OF assms])
next
  assume h: "post_error c = None \<and> status_code c = 200 \<and> \<not> is_infini (current_config s) \<and>
          MAX_MESSAGE_LENGTH < length (concat (curl_deltas (body_lines c)))"
  then obtain extra where
    "messages (send_curl_request env c s) =
       stored_log (messages s) [] (curl_deltas (body_lines c)) @ extra"
    using send_curl_request_log [OF assms, of c env] by blast
  with truncated_stored [OF assms, of "curl_deltas (body_lines c)" extra] h
  show "let stored = messages (send_curl_request env c s) ! (length (messages s) - 1)
        in role stored = Assistant \<and>
           content stored =
             take MAX_MESSAGE_LENGTH (concat (curl_deltas (body_lines c))) @ response_truncated \<and>
           length (content stored) = MAX_MESSAGE_LENGTH + length response_truncated \<and>
           suffix response_truncated (content stored)"
    by simp
qed

theorem truncated_response_stored_witness:
  "messages waiting_ui \<noteq> [] \<and>
   MAX_MESSAGE_LENGTH < length (concat (openai_deltas (chunks long_stream))) \<and>
   (let stored = messages (send_openai_request example_env long_stream waiting_ui) !
                 (length (messages waiting_ui) - 1)
    in role stored = Assistant \<and>
       content stored =
         take MAX_MESSAGE_LENGTH (concat (openai_deltas (chunks long_stream))) @
         response_truncated \<and>
       length (content stored) = MAX_MESSAGE_LENGTH + length response_truncated \<and>
       suffix response_truncated (content stored)) \<and>
   post_error long_lines = None \<and> status_code long_lines = 200 \<and>
   \<not> is_infini (current_config waiting_ui) \<and>
   MAX_MESSAGE_LENGTH < length (concat (curl_deltas (body_lines long_lines))) \<and>
   (let stored = messages (send_curl_request example_env long_lines waiting_ui) !
                 (length (messages waiting_ui) - 1)
    in role stored = Assistant \<and>
       content stored =
         take MAX_MESSAGE_LENGTH (concat (curl_deltas (body_lines long_lines))) @
         response_truncated \<and>
       length (content stored) = MAX_MESSAGE_LENGTH + length response_truncated \<and>
       suffix response_truncated (content stored))"
proof -
  have h1: "messages waiting_ui \<noteq> []"
    by (simp add: messages_waiting_ui)
  have h2: "MAX_MESSAGE_LENGTH < length (concat (openai_deltas (chunks long_stream)))"
    by (simp add: MAX_MESSAGE_LENGTH_def long_reply_def long_stream_def)
  have h3: "post_error long_lines = None \<and> status_code long_lines = 200 \<and>
            \<not> is_infini (current_config waiting_ui) \<and>
            MAX_MESSAGE_LENGTH < length (concat (curl_deltas (body_lines long_lines)))"
    by (simp add: MAX_MESSAGE_LENGTH_def long_reply_def long_lines_def
          current_config_waiting_ui example_config_def)
  from truncated_response_stored [OF h1, where r = long_stream and c = long_lines
      and env = example_env] h1 h2 h3
  show ?thesis by blast
qed

text \<open>
  Claim C2, as the code has it. When a streamed exchange ends without an exception and
  with an empty accumulated text, exactly one message is appended to the log, the system
  notice that no valid response came. The message seeded at submission is not removed:
  the log before the notice is the log as it was, unless a chunk carried an (empty) text,
  in which case its last message was overwritten with the empty assistant message.
\<close>

theorem empty_result_notice:
  assumes "messages s \<noteq> []"
  shows "(raised r = None \<and> concat (openai_deltas (chunks r)) = [] \<longrightarrow>
            messages (send_openai_request env r s) =
              (if openai_deltas (chunks r) = [] then messages s
               else butlast (messages s) @ [\<lparr>role = Assistant, content = []\<rparr>]) @
              [\<lparr>role = System, content = no_valid_response\<rparr>]) \<and>
         (post_error c = None \<and> status_code c = 200 \<and> \<not> is_infini (current_config s) \<and>
          curl_failure (body_lines c) = None \<and> lines_error c = None \<and>
          concat (curl_deltas (body_lines c)) = [] \<longrightarrow>
            messages (send_curl_request env c s) =
              (if curl_deltas (body_lines c) = [] then messages s
               else butlast (messages s) @ [\<lparr>role = Assistant, content = []\<rparr>]) @
              [\<lparr>role = System, content = no_valid_response\<rparr>])"
proof -
  have notice: "system_notice no_valid_response = \<lparr>role = System, content = no_valid_response\<rparr>"
    by (simp add: system_notice_def no_valid_response_def MAX_MESSAGE_LENGTH_def)
  have a: "raised r = None \<and> concat (openai_deltas (chunks r)) = [] \<longrightarrow>
            messages (send_openai_request env r s) =
              (if openai_deltas (chunks r) = [] then messages s
               else butlast (messages s) @ [\<lparr>role = Assistant, content = []\<rparr>]) @
              [\<lparr>role = System, content = no_valid_response\<rparr>]"
  proof
    assume h: "raised r = None \<and> concat (openai_deltas (chunks r)) = []"
    then have "clamp_response (concat (openai_deltas (chunks r))) = []"
      by (simp only: clamp_response_Nil)
    with h show "messages (send_openai_request env r s) =
              (if openai_deltas (chunks r) = [] then messages s
               else butlast (messages s) @ [\<lparr>role = Assistant, content = []\<rparr>]) @
              [\<lparr>role = System, content = no_valid_response\<rparr>]"
      by (simp add: send_openai_request_log [OF assms] stored_log_def notice
            del: concat_eq_Nil_conv)
  qed
  have b: "post_error c = None \<and> status_code c = 200 \<and> \<not> is_infini (current_config s) \<and>
          curl_failure (body_lines c) = None \<and> lines_error c = None \<and>
          concat (curl_deltas (body_lines c)) = [] \<longrightarrow>
            messages (send_curl_request env c s) =
              (if curl_deltas (body_lines c) = [] then messages s
               else butlast (messages s) @ [\<lparr>role = Assistant, content = []\<rparr>]) @
              [\<lparr>role = System, content = no_valid_response\<rparr>]"
  proof
    assume h: "post_error c = None \<and> status_code c = 200 \<and> \<not> is_infini (current_config s) \<and>
          curl_failure (body_lines c) = None \<and> lines_error c = None \<and>
          concat (curl_deltas (body_lines c)) = []"
    then obtain extra where
      "messages (send_curl_request env c s) =
         stored_log (messages s) [] (curl_deltas (body_lines c)) @ extra"
      and "extra = [system_notice no_valid_response]"
      using send_curl_request_log [OF assms, of c env] by (auto simp del: concat_eq_Nil_conv)
    moreover from h have "clamp_response (concat (curl_deltas (body_lines c))) = []"
      by (simp only: clamp_response_Nil)
    ultimately show "messages (send_curl_request env c s) =
              (if curl_deltas (body_lines c) = [] then messages s
               else butlast (messages s) @ [\<lparr>role = Assistant, content = []\<rparr>]) @
              [\<lparr>role = System, content = no_valid_response\<rparr>]"
      using h by (simp add: stored_log_def notice del: concat_eq_Nil_conv)
  qed
  from a b show ?thesis by (rule conjI)
qed

theorem empty_result_notice_witness:
  "messages waiting_ui \<noteq> [] \<and>
   raised empty_stream = None \<and> concat (openai_deltas (chunks empty_stream)) = [] \<and>
   messages (send_openai_request example_env empty_stream waiting_ui) =
     (if openai_deltas (chunks empty_stream) = [] then messages waiting_ui
      else butlast (messages waiting_ui) @ [\<lparr>role = Assistant, content = []\<rparr>]) @
     [\<lparr>role = System, content = no_valid_response\<rparr>] \<and>
   post_error empty_lines = None \<and> status_code empty_lines = 200 \<and>
   \<not> is_infini (current_config waiting_ui) \<and>
   curl_failure (body_lines empty_lines) = None \<and> lines_error empty_lines = None \<and>
   concat (curl_deltas (body_lines empty_lines)) = [] \<and>
   messages (send_curl_request example_env empty_lines waiting_ui) =
     (if curl_deltas (body_lines empty_lines) = [] then messages waiting_ui
      else butlast (messages waiting_ui) @ [\<lparr>role = Assistant, content = []\<rparr>]) @
     [\<lparr>role = System, content = no_valid_response\<rparr>]"
proof -
  have h1: "messages waiting_ui \<noteq> []"
    by (simp add: messages_waiting_ui)
  have h2: "raised empty_stream = None \<and> concat (openai_deltas (chunks empty_stream)) = []"
    by (simp add: empty_stream_def)
  have h3: "post_error empty_lines = None \<and> status_code empty_lines = 200 \<and>
            \<not> is_infini (current_config waiting_ui) \<and>
            curl_failure (body_lines empty_lines) = None \<and> lines_error empty_lines = None \<and>
            concat (curl_deltas (body_lines empty_lines)) = []"
    by (simp add: empty_lines_def current_config_waiting_ui example_config_def)
  from empty_result_notice [OF h1, where r = empty_stream and c = empty_lines
      and env = example_env] h1 h2 h3
  show ?thesis by blast
qed

text \<open>
  The claim C2 as stated, that no assistant message is left with the text seeded at
  submission, fails: after \<open>hi\<close> is sent and the stream ends without a chunk, the log
  holds the user message, the seeded assistant message and the notice.
\<close>

theorem empty_result_keeps_placeholder:
  "messages (send_openai_request example_env \<lparr>chunks = [], raised = None\<rparr> waiting_ui) =
     [\<lparr>role = User, content = ascii ''hi''\<rparr>,
      \<lparr>role = Assistant, content = thinking\<rparr>,
      \<lparr>role = System, content = no_valid_response\<rparr>]"
  by (simp add: send_openai_request_def messages_add_system_message messages_waiting_ui
        system_notice_def no_valid_response_def MAX_MESSAGE_LENGTH_def)

section \<open>A tag padded with a blank\<close>

text \<open>
  Claim C1, at its input. The session holds a file \<open>notes.txt\<close> of 50 bytes, and the
  message \<open>{{:F notes.txt}}\<close> is typed and sent. The log keeps the tag, and so does the
  text that is displayed for it; but the message handed to the client still holds the
  tag, not the content of the file: \<open>replace_file_tags\<close> strips the path it found and
  then looks for the tag rebuilt from the stripped path, which does not occur in the
  message. Without the blank, the tag is replaced by the content of the file in its
  labelled fence (last equation).
\<close>

theorem padded_tag_not_resolved:
  "messages (snd (send_message example_env (typed (ascii ''{{:F notes.txt}}'')))) =
     [\<lparr>role = User, content = ascii ''{{:F notes.txt}}''\<rparr>,
      \<lparr>role = Assistant, content = thinking\<rparr>] \<and>
   display_content [] \<lparr>role = User, content = ascii ''{{:F notes.txt}}''\<rparr> =
     [29992, 25143, 58, 32] @ ascii ''{{:F notes.txt}}'' \<and>
   started (snd (send_message example_env (typed (ascii ''{{:F notes.txt}}'')))) =
     [(OpenaiRequest, [\<lparr>role = User, content = ascii ''{{:F notes.txt}}''\<rparr>])] \<and>
   started (snd (send_message example_env (typed (ascii ''{{:Fnotes.txt}}'')))) =
     [(OpenaiRequest,
       [\<lparr>role = User,
         content = [10, 96, 96, 96, 25991, 20214, 20869, 23481, 58] @ ascii ''notes.txt'' @
                   [10] @ notes_txt @ [10, 96, 96, 96, 10]\<rparr>])]"
  by (simp add: send_message_def typed_def fresh_ui_def strip_def isspace_def
        ascii_def Let_def redraw_def redraw_input_only_def example_env_def example_config_def
        messages_to_send_def replace_file_tags_def replace_one_tag_def match_tag_def file_tag_def
        str_replace_def rbrace_def MAX_FILE_SIZE_def notes_txt_def display_content_def
        role_prefix_def)

end
